theory Spec2Isabelle
  imports Main "HOL-Library.Sublist"
begin

section \<open>Python values and library functions used by \<^verbatim>\<open>parfait/layer_wrappers.py\<close>\<close>

text \<open>
  Exceptions are values. Each constructor is one exception class the module can raise,
  directly (\<^verbatim>\<open>RuntimeError\<close> in \<^verbatim>\<open>load_layer\<close>) or through the interpreter and the
  standard library (\<^verbatim>\<open>NameError\<close> for an unbound global, \<^verbatim>\<open>AttributeError\<close>,
  \<^verbatim>\<open>KeyError\<close> for a missing dictionary key, \<^verbatim>\<open>TypeError\<close> for \<^verbatim>\<open>str + tuple\<close>,
  \<^verbatim>\<open>re.error\<close> for a malformed pattern).
\<close>

datatype error =
    NameError string
  | AttributeError string
  | KeyError
  | TypeError
  | RuntimeError string
  | ReError

text \<open>
  Strings are text: a path or a name is a \<^verbatim>\<open>unicode\<close> object (or an ASCII \<^verbatim>\<open>str\<close>), on which
  \<^verbatim>\<open>unicode(x)\<close> is the identity.
\<close>

text \<open>\<^verbatim>\<open>s.find(sub)\<close>: the lowest index at which \<^verbatim>\<open>sub\<close> occurs in \<^verbatim>\<open>s\<close>, or -1.\<close>

fun find_at :: "string \<Rightarrow> string \<Rightarrow> nat \<Rightarrow> int" where
  "find_at sub [] i = (if sub = [] then int i else - 1)"
| "find_at sub (c # cs) i = (if prefix sub (c # cs) then int i else find_at sub cs (Suc i))"

definition str_find :: "string \<Rightarrow> string \<Rightarrow> int" where
  "str_find s sub = find_at sub s 0"

text \<open>\<^verbatim>\<open>s.rfind(c)\<close> for a one-character \<^verbatim>\<open>c\<close>: the highest index of \<^verbatim>\<open>c\<close> in \<^verbatim>\<open>s\<close>, or -1.\<close>

fun rfind_at :: "char \<Rightarrow> string \<Rightarrow> nat \<Rightarrow> int \<Rightarrow> int" where
  "rfind_at c [] i found = found"
| "rfind_at c (x # xs) i found = rfind_at c xs (Suc i) (if x = c then int i else found)"

definition str_rfind :: "string \<Rightarrow> char \<Rightarrow> int" where
  "str_rfind s c = rfind_at c s 0 (- 1)"

text \<open>
  A slice bound: a negative bound counts from the end, and every bound is clamped to
  \<open>0 .. len\<close>. \<^verbatim>\<open>s[i:]\<close> is \<open>slice_from s i\<close> and \<^verbatim>\<open>s[:j]\<close> is \<open>slice_to s j\<close>.
\<close>

definition slice_index :: "int \<Rightarrow> nat \<Rightarrow> nat" where
  "slice_index i len = (if i < 0 then nat (max 0 (i + int len)) else min (nat i) len)"

definition slice_from :: "string \<Rightarrow> int \<Rightarrow> string" where
  "slice_from s i = drop (slice_index i (length s)) s"

definition slice_to :: "string \<Rightarrow> int \<Rightarrow> string" where
  "slice_to s j = take (slice_index j (length s)) s"

text \<open>\<^verbatim>\<open>sep.join(parts)\<close>\<close>

fun str_join :: "string \<Rightarrow> string list \<Rightarrow> string" where
  "str_join sep [] = []"
| "str_join sep [p] = p"
| "str_join sep (p # q # ps) = p @ sep @ str_join sep (q # ps)"

text \<open>
  \<^verbatim>\<open>os.path\<close> is \<^verbatim>\<open>posixpath\<close>. \<^verbatim>\<open>splitext\<close> is \<^verbatim>\<open>genericpath._splitext(p, '/', None, '.')\<close>:
  the extension starts at the last dot of the last path component, unless that
  component has only leading dots before it; the \<^verbatim>\<open>while\<close> loop that skips the leading
  dots is \<open>skip_dots\<close>.
\<close>

function skip_dots :: "string \<Rightarrow> nat \<Rightarrow> nat \<Rightarrow> string \<times> string" where
  "skip_dots p filenameIndex dotIndex =
     (if filenameIndex < dotIndex then
        (if p ! filenameIndex \<noteq> CHR ''.'' then (take dotIndex p, drop dotIndex p)
         else skip_dots p (Suc filenameIndex) dotIndex)
      else (p, []))"
  by pat_completeness auto
termination
  by (relation "measure (\<lambda>(p, filenameIndex, dotIndex). dotIndex - filenameIndex)") auto

declare skip_dots.simps [simp del]

definition splitext :: "string \<Rightarrow> string \<times> string" where
  "splitext p =
     (let sepIndex = str_rfind p CHR ''/'';
          dotIndex = str_rfind p CHR ''.''
      in if dotIndex > sepIndex then skip_dots p (nat (sepIndex + 1)) (nat dotIndex)
         else (p, []))"

definition basename :: "string \<Rightarrow> string" where
  "basename p = (let i = str_rfind p CHR ''/'' + 1 in slice_from p i)"

text \<open>
  \<^verbatim>\<open>re.match(pattern, s)\<close> compiles the pattern, raising \<^verbatim>\<open>re.error\<close> when it is
  malformed, and then tests whether \<^verbatim>\<open>s\<close> matches at its start. The engine belongs to the
  standard library, so it is a parameter: \<open>None\<close> stands for a pattern that does not
  compile, \<open>Some m\<close> for the anchored matcher of a pattern that does.
\<close>

type_synonym regex_engine = "string \<Rightarrow> (string \<Rightarrow> bool) option"

text \<open>
  On a pattern without metacharacters \<^verbatim>\<open>re.match\<close> is the prefix test; \<open>literal_engine\<close>
  is that fragment, and rejects every other pattern.
\<close>

definition metacharacters :: "char list" where
  "metacharacters = ''.^$*+?{}[]|()'' @ [CHR 0x5C]"

definition literal_engine :: regex_engine where
  "literal_engine p = (if list_ex (\<lambda>c. c \<in> set metacharacters) p then None
                       else Some (\<lambda>s. prefix p s))"

section \<open>Host objects\<close>

text \<open>\<^verbatim>\<open>QgsMapLayer.LayerType\<close>, \<^verbatim>\<open>QGis.WkbType\<close> and the \<^verbatim>\<open>QVariant\<close> type codes.\<close>

datatype layer_type = VectorLayer | RasterLayer | PluginLayer

datatype wkb_type =
    WKBUnknown | WKBPoint | WKBLineString | WKBPolygon
  | WKBMultiPoint | WKBMultiLineString | WKBMultiPolygon | WKBNoGeometry
  | WKBPoint25D | WKBLineString25D | WKBPolygon25D
  | WKBMultiPoint25D | WKBMultiLineString25D | WKBMultiPolygon25D

datatype qvariant_type =
    QVariant_Invalid | QVariant_Bool | QVariant_Int | QVariant_LongLong
  | QVariant_Double | QVariant_String | QVariant_Date | QVariant_DateTime

text \<open>A layer handle, with what the module reads from it: \<^verbatim>\<open>name()\<close>, \<^verbatim>\<open>type()\<close>, \<^verbatim>\<open>isValid()\<close>.\<close>

record layer =
  lname :: string
  ltype :: layer_type
  source :: string
  provider :: string
  isValid :: bool

record crs =
  authid :: string
  crs_isValid :: bool

datatype qgsfield = QgsField string qvariant_type

text \<open>
  The host's mutable state: the layer registry (\<^verbatim>\<open>mapLayers().values()\<close>, in the order the
  dictionary iterates), the persisted settings (\<^verbatim>\<open>QSettings\<close>), and the log of the
  constructor and registry calls the module has made, in order.
\<close>

datatype host_call =
    OpenVector string string string
  | OpenRaster string string
  | WriteVector string string "qgsfield list" wkb_type crs string
  | AddMapLayers "layer list" bool

record world =
  registry :: "layer list"
  settings :: "string \<Rightarrow> string option"
  calls :: "host_call list"

text \<open>
  What the host decides and the module only observes: the regular-expression engine,
  the table \<^verbatim>\<open>QgsVectorFileWriter.supportedFiltersAndFormats().items()\<close>, whether a source
  opens as a vector or as a raster layer, the CRS an authority code resolves to, and
  the registry's content after \<^verbatim>\<open>addMapLayers\<close>.
\<close>

record host =
  re_engine :: regex_engine
  supportedFiltersAndFormats :: "(string \<times> string) list"
  vector_opens :: "world \<Rightarrow> string \<Rightarrow> string \<Rightarrow> bool"
  raster_opens :: "world \<Rightarrow> string \<Rightarrow> bool"
  crs_from_authid :: "string \<Rightarrow> crs"
  registry_after_add :: "layer list \<Rightarrow> layer list \<Rightarrow> layer list"

definition QgsVectorLayer :: "host \<Rightarrow> string \<Rightarrow> string \<Rightarrow> string \<Rightarrow> world \<Rightarrow> layer \<times> world" where
  "QgsVectorLayer h path baseName providerLib w =
     (\<lparr>lname = baseName, ltype = VectorLayer, source = path, provider = providerLib,
       isValid = vector_opens h w path providerLib\<rparr>,
      w\<lparr>calls := calls w @ [OpenVector path baseName providerLib]\<rparr>)"

definition QgsRasterLayer :: "host \<Rightarrow> string \<Rightarrow> string \<Rightarrow> world \<Rightarrow> layer \<times> world" where
  "QgsRasterLayer h path baseName w =
     (\<lparr>lname = baseName, ltype = RasterLayer, source = path, provider = ''gdal'',
       isValid = raster_opens h w path\<rparr>,
      w\<lparr>calls := calls w @ [OpenRaster path baseName]\<rparr>)"

definition QgsVectorFileWriter ::
  "string \<Rightarrow> string \<Rightarrow> qgsfield list \<Rightarrow> wkb_type \<Rightarrow> crs \<Rightarrow> string \<Rightarrow> world \<Rightarrow> world" where
  "QgsVectorFileWriter filename encoding qgsfields geometryType c driverName w =
     w\<lparr>calls := calls w @ [WriteVector filename encoding qgsfields geometryType c driverName]\<rparr>"

definition addMapLayers :: "host \<Rightarrow> layer list \<Rightarrow> bool \<Rightarrow> world \<Rightarrow> world" where
  "addMapLayers h ls addToLegend w =
     w\<lparr>registry := registry_after_add h (registry w) ls,
       calls := calls w @ [AddMapLayers ls addToLegend]\<rparr>"

section \<open>The module's namespace\<close>

text \<open>
  The names a function of the module can resolve as globals: those bound by the module's
  own statements (\<^verbatim>\<open>import os\<close>, \<^verbatim>\<open>import re\<close>, \<^verbatim>\<open>from PyQt4 import QtGui, QtCore\<close>, the
  assignments and the \<^verbatim>\<open>def\<close>s), the classes of \<^verbatim>\<open>qgis.core\<close> it refers to (bound by
  \<^verbatim>\<open>from qgis.core import *\<close>), and the builtins it uses.
\<close>

definition module_names :: "string list" where
  "module_names =
     [''os'', ''re'', ''QtGui'', ''QtCore'', ''_layerreg'', ''map_layers'', ''add_layer'',
      ''TYPE_MAP'', ''GEOM_TYPE_MAP'', ''_toQgsField'', ''_fieldName'', ''new_points_layer'',
      ''new_lines_layer'', ''new_polygons_layer'', ''new_vector_layer'', ''create_wms_layer'',
      ''create_wfs_layer'', ''layer_from_name'', ''load_layer'', ''load_layer_no_crs_dialog'',
      ''load_vector'']"

definition qgis_core_names :: "string list" where
  "qgis_core_names =
     [''QgsMapLayerRegistry'', ''QgsMapLayer'', ''QGis'', ''QgsField'', ''QgsFields'',
      ''QgsCoordinateReferenceSystem'', ''QgsVectorLayer'', ''QgsRasterLayer'',
      ''QgsVectorFileWriter'']"

definition builtin_names :: "string list" where
  "builtin_names =
     [''None'', ''True'', ''False'', ''isinstance'', ''hasattr'', ''list'', ''str'', ''float'',
      ''int'', ''bool'', ''basestring'', ''unicode'', ''RuntimeError'']"

definition lookup_global :: "string \<Rightarrow> error + unit" where
  "lookup_global n =
     (if n \<in> set (module_names @ qgis_core_names @ builtin_names) then Inr ()
      else Inl (NameError n))"

text \<open>The attributes of \<^verbatim>\<open>QGis\<close> that name a geometry type.\<close>

definition QGis_attributes :: "(string \<times> wkb_type) list" where
  "QGis_attributes =
     [(''WKBUnknown'', WKBUnknown), (''WKBPoint'', WKBPoint), (''WKBLineString'', WKBLineString),
      (''WKBPolygon'', WKBPolygon), (''WKBMultiPoint'', WKBMultiPoint),
      (''WKBMultiLineString'', WKBMultiLineString), (''WKBMultiPolygon'', WKBMultiPolygon),
      (''WKBNoGeometry'', WKBNoGeometry), (''WKBPoint25D'', WKBPoint25D),
      (''WKBLineString25D'', WKBLineString25D), (''WKBPolygon25D'', WKBPolygon25D),
      (''WKBMultiPoint25D'', WKBMultiPoint25D), (''WKBMultiLineString25D'', WKBMultiLineString25D),
      (''WKBMultiPolygon25D'', WKBMultiPolygon25D)]"

definition QGis_attr :: "string \<Rightarrow> error + wkb_type" where
  "QGis_attr a = (case map_of QGis_attributes a of
                    None \<Rightarrow> Inl (AttributeError a)
                  | Some t \<Rightarrow> Inr t)"

section \<open>The layer directory: \<^verbatim>\<open>map_layers\<close> and \<^verbatim>\<open>layer_from_name\<close>\<close>

text \<open>
  The \<^verbatim>\<open>types\<close> argument is \<^verbatim>\<open>None\<close>, a single layer type or a list of them; the \<^verbatim>\<open>name\<close>
  argument is \<^verbatim>\<open>None\<close> or a pattern string. \<^verbatim>\<open>if name\<close> and \<^verbatim>\<open>if types\<close> test truthiness:
  \<^verbatim>\<open>None\<close>, the empty string and the empty list are false.
\<close>

datatype types_arg = OneType layer_type | TypeList "layer_type list"

text \<open>\<^verbatim>\<open>if types is not None and not isinstance(types, list): types = [types]\<close>\<close>

fun as_list :: "types_arg \<Rightarrow> layer_type list" where
  "as_list (OneType t) = [t]"
| "as_list (TypeList ts) = ts"

fun truthy_str :: "string option \<Rightarrow> bool" where
  "truthy_str None = False"
| "truthy_str (Some s) = (s \<noteq> [])"

fun truthy_list :: "'a list option \<Rightarrow> bool" where
  "truthy_list None = False"
| "truthy_list (Some xs) = (xs \<noteq> [])"

text \<open>
  \<^verbatim>\<open>[layer for layer in layers if re.match(name, layer.name())]\<close>: \<^verbatim>\<open>re.match\<close> runs once
  per layer, so a malformed pattern raises at the first layer, and never on an empty
  registry.
\<close>

fun name_matches :: "regex_engine \<Rightarrow> string \<Rightarrow> layer list \<Rightarrow> error + layer list" where
  "name_matches re name [] = Inr []"
| "name_matches re name (l # ls) =
     (case re name of
        None \<Rightarrow> Inl ReError
      | Some m \<Rightarrow>
          (case name_matches re name ls of
             Inl e \<Rightarrow> Inl e
           | Inr rest \<Rightarrow> Inr (if m (lname l) then l # rest else rest)))"

text \<open>\<^verbatim>\<open>[layer for layer in layers if layer.type() in types]\<close>\<close>

definition type_matches :: "layer_type list \<Rightarrow> layer list \<Rightarrow> layer list" where
  "type_matches types layers = filter (\<lambda>l. ltype l \<in> set types) layers"

definition map_layers ::
  "host \<Rightarrow> string option \<Rightarrow> types_arg option \<Rightarrow> world \<Rightarrow> error + layer list" where
  "map_layers h name types w =
     (let types = (case types of None \<Rightarrow> None | Some t \<Rightarrow> Some (as_list t));
          layers = registry w
      in if truthy_str name \<or> truthy_list types then
           (case (case name of
                    Some n \<Rightarrow> if n \<noteq> [] then name_matches (re_engine h) n layers else Inr []
                  | None \<Rightarrow> Inr []) of
              Inl e \<Rightarrow> Inl e
            | Inr found \<Rightarrow>
                Inr (case types of
                       Some ts \<Rightarrow> if ts \<noteq> [] then found @ type_matches ts layers else found
                     | None \<Rightarrow> found))
         else Inr layers)"

text \<open>
  \<^verbatim>\<open>layer_from_name\<close>: the \<^verbatim>\<open>for\<close> loop returns at the first layer whose name equals the
  argument; falling off the end of the function returns \<^verbatim>\<open>None\<close>.
\<close>

fun first_named :: "string \<Rightarrow> layer list \<Rightarrow> layer option" where
  "first_named name [] = None"
| "first_named name (l # ls) = (if lname l = name then Some l else first_named name ls)"

definition layer_from_name :: "string \<Rightarrow> world \<Rightarrow> layer option" where
  "layer_from_name name w = first_named name (registry w)"

section \<open>Registration: \<^verbatim>\<open>add_layer\<close>\<close>

text \<open>
  The argument is one layer handle or a sequence of them.
  \<^verbatim>\<open>if not hasattr(layer, '__iter__'): layer = [layer]\<close>: a layer handle has no
  \<^verbatim>\<open>__iter__\<close> attribute and is wrapped in a list, a sequence has one and stays as it is.
\<close>

datatype layer_arg = Single layer | Sequence "layer list"

fun as_sequence :: "layer_arg \<Rightarrow> layer list" where
  "as_sequence (Single l) = [l]"
| "as_sequence (Sequence ls) = ls"

definition add_layer :: "host \<Rightarrow> layer_arg \<Rightarrow> bool \<Rightarrow> world \<Rightarrow> layer list \<times> world" where
  "add_layer h layer load_in_legend w =
     (let layer = as_sequence layer
      in (layer, addMapLayers h layer load_in_legend w))"

section \<open>Layer creation: \<^verbatim>\<open>new_vector_layer\<close> and its wrappers\<close>

text \<open>
  The second component of a \<^verbatim>\<open>(field_name, field_type)\<close> tuple is a Python object: one of
  the type objects \<^verbatim>\<open>str\<close>, \<^verbatim>\<open>float\<close>, \<^verbatim>\<open>int\<close>, \<^verbatim>\<open>bool\<close>, or any other hashable value
  (\<open>Py_other\<close>, with its \<^verbatim>\<open>repr\<close>).
\<close>

datatype pytype = Py_str | Py_float | Py_int | Py_bool | Py_other string

definition TYPE_MAP :: "(pytype \<times> qvariant_type) list" where
  "TYPE_MAP =
     [(Py_str, QVariant_String), (Py_float, QVariant_Double),
      (Py_int, QVariant_Int), (Py_bool, QVariant_Bool)]"

definition GEOM_TYPE_MAP :: "(wkb_type \<times> string) list" where
  "GEOM_TYPE_MAP =
     [(WKBPoint, ''Point''), (WKBLineString, ''LineString''), (WKBPolygon, ''Polygon''),
      (WKBMultiPoint, ''MultiPoint''), (WKBMultiLineString, ''MultiLineString''),
      (WKBMultiPolygon, ''MultiPolygon'')]"

text \<open>\<^verbatim>\<open>d.get(k, dflt)\<close>\<close>

definition dict_get :: "('k \<times> 'v) list \<Rightarrow> 'k \<Rightarrow> 'v \<Rightarrow> 'v" where
  "dict_get d k dflt = (case map_of d k of None \<Rightarrow> dflt | Some v \<Rightarrow> v)"

text \<open>
  The \<^verbatim>\<open>fields\<close> argument, as the docstring has it: a \<^verbatim>\<open>QgsFields\<close> object, or a list
  whose entries are \<^verbatim>\<open>QgsField\<close> objects or \<^verbatim>\<open>(field_name, field_type)\<close> tuples.
\<close>

datatype field_arg = Typed qgsfield | NameType string pytype

datatype fields_arg = QgsFields "qgsfield list" | FieldList "field_arg list"

fun toQgsField :: "field_arg \<Rightarrow> qgsfield" where
  "toQgsField (Typed f) = f"
| "toQgsField (NameType n t) = QgsField n (dict_get TYPE_MAP t QVariant_String)"

text \<open>The \<^verbatim>\<open>crs\<close> argument: an authority-code string or a CRS object.\<close>

datatype crs_arg = AuthId string | Crs crs

text \<open>
  The extension the module reads off a key of the format table:
  \<^verbatim>\<open>extension[extension.find('*.') + 2:]\<close>, then \<^verbatim>\<open>extension[:extension.find(' ')]\<close>.
\<close>

definition format_extension :: "string \<Rightarrow> string" where
  "format_extension key =
     (let extension = key;
          extension = slice_from extension (str_find extension ''*.'' + 2);
          extension = slice_to extension (str_find extension '' '')
      in extension)"

text \<open>The loop that fills \<^verbatim>\<open>OGRCodes\<close>: a later item overwrites an earlier one.\<close>

fun fill_OGRCodes :: "(string \<times> string) list \<Rightarrow> (string \<rightharpoonup> string) \<Rightarrow> (string \<rightharpoonup> string)" where
  "fill_OGRCodes [] OGRCodes = OGRCodes"
| "fill_OGRCodes ((key, val) # items) OGRCodes =
     fill_OGRCodes items (OGRCodes(format_extension key \<mapsto> val))"

text \<open>
  \<^verbatim>\<open>['field=' + f for f in fields]\<close> in the memory branch: the entries are field objects
  or tuples, and \<^verbatim>\<open>str + tuple\<close> raises \<^verbatim>\<open>TypeError\<close> at the first entry.
\<close>

fun fields_entries :: "fields_arg \<Rightarrow> field_arg list" where
  "fields_entries (QgsFields qs) = map Typed qs"
| "fields_entries (FieldList fs) = fs"

fun fieldsdesc_of :: "field_arg list \<Rightarrow> error + string list" where
  "fieldsdesc_of [] = Inr []"
| "fieldsdesc_of (f # fs) = Inl TypeError"

text \<open>\<^verbatim>\<open>if isinstance(crs, basestring): crs = QgsCoordinateReferenceSystem(crs)\<close>\<close>

fun as_crs :: "host \<Rightarrow> crs_arg \<Rightarrow> crs" where
  "as_crs h (AuthId s) = crs_from_authid h s"
| "as_crs h (Crs c) = c"

text \<open>
  The schema handed to the file writer: a \<^verbatim>\<open>QgsFields\<close> object as it is, a list entry by
  entry through \<^verbatim>\<open>_toQgsField\<close>.
\<close>

fun as_qgsfields :: "fields_arg \<Rightarrow> qgsfield list" where
  "as_qgsfields (QgsFields qs) = qs"
| "as_qgsfields (FieldList fs) = map toQgsField fs"

definition new_vector_layer ::
  "host \<Rightarrow> string option \<Rightarrow> fields_arg \<Rightarrow> wkb_type \<Rightarrow> crs_arg \<Rightarrow> string \<Rightarrow> world
     \<Rightarrow> (error + layer) \<times> world" where
  "new_vector_layer h filename flds geometryType crs encoding w =
     (let crs = as_crs h crs
      in case filename of
           None \<Rightarrow>
             (case lookup_global ''self'' of
                Inl e \<Rightarrow> (Inl e, w)
              | Inr _ \<Rightarrow>
                  (case map_of GEOM_TYPE_MAP geometryType of
                     None \<Rightarrow> (Inl KeyError, w)
                   | Some label \<Rightarrow>
                       (let uri = (if crs_isValid crs
                                   then label @ ''?crs='' @ authid crs @ ''&''
                                   else label)
                        in case fieldsdesc_of (fields_entries flds) of
                             Inl e \<Rightarrow> (Inl e, w)
                           | Inr fieldsdesc \<Rightarrow>
                               (let fieldsstring = str_join ''&'' fieldsdesc;
                                    (layer, w1) = QgsVectorLayer h (uri @ fieldsstring)
                                                    ''mem_layer'' ''memory'' w
                                in (Inr layer, w1)))))
         | Some filename \<Rightarrow>
             (let OGRCodes = fill_OGRCodes (supportedFiltersAndFormats h) Map.empty;
                  extension = slice_from (snd (splitext filename)) 1;
                  (extension, filename) =
                     (if OGRCodes extension = None then (''shp'', filename @ ''.shp'')
                      else (extension, filename));
                  qgsfields = as_qgsfields flds
              in case OGRCodes extension of
                   None \<Rightarrow> (Inl KeyError, w)
                 | Some driverName \<Rightarrow>
                     (let w1 = QgsVectorFileWriter filename encoding qgsfields geometryType
                                 crs driverName w;
                          (layer, w2) = QgsVectorLayer h filename (basename filename) ''ogr'' w1
                      in (Inr layer, w2))))"

text \<open>
  The wrappers call the global \<^verbatim>\<open>newVectorLayer\<close>. A call evaluates the callee name
  first, then the arguments (among them an attribute of \<^verbatim>\<open>QGis\<close>), then calls; the only
  module-level callable that takes these five arguments is \<^verbatim>\<open>new_vector_layer\<close>.
\<close>

type_synonym factory =
  "host \<Rightarrow> string option \<Rightarrow> fields_arg \<Rightarrow> wkb_type \<Rightarrow> crs_arg \<Rightarrow> string \<Rightarrow> world
     \<Rightarrow> (error + layer) \<times> world"

definition module_factories :: "(string \<times> factory) list" where
  "module_factories = [(''new_vector_layer'', new_vector_layer)]"

definition call_wrapped ::
  "string \<Rightarrow> string \<Rightarrow> host \<Rightarrow> string option \<Rightarrow> fields_arg \<Rightarrow> crs_arg \<Rightarrow> string \<Rightarrow> world
     \<Rightarrow> (error + layer) \<times> world" where
  "call_wrapped callee attr h filename flds crs encoding w =
     (case lookup_global callee of
        Inl e \<Rightarrow> (Inl e, w)
      | Inr _ \<Rightarrow>
          (case QGis_attr attr of
             Inl e \<Rightarrow> (Inl e, w)
           | Inr geometryType \<Rightarrow>
               (case map_of module_factories callee of
                  None \<Rightarrow> (Inl TypeError, w)
                | Some f \<Rightarrow> f h filename flds geometryType crs encoding w)))"

definition new_points_layer ::
  "host \<Rightarrow> string option \<Rightarrow> fields_arg \<Rightarrow> crs_arg \<Rightarrow> string \<Rightarrow> world \<Rightarrow> (error + layer) \<times> world" where
  "new_points_layer h filename flds crs encoding w =
     call_wrapped ''newVectorLayer'' ''WKBPoint'' h filename flds crs encoding w"

definition new_lines_layer ::
  "host \<Rightarrow> string option \<Rightarrow> fields_arg \<Rightarrow> crs_arg \<Rightarrow> string \<Rightarrow> world \<Rightarrow> (error + layer) \<times> world" where
  "new_lines_layer h filename flds crs encoding w =
     call_wrapped ''newVectorLayer'' ''WKBLine'' h filename flds crs encoding w"

definition new_polygons_layer ::
  "host \<Rightarrow> string option \<Rightarrow> fields_arg \<Rightarrow> crs_arg \<Rightarrow> string \<Rightarrow> world \<Rightarrow> (error + layer) \<times> world" where
  "new_polygons_layer h filename flds crs encoding w =
     call_wrapped ''newVectorLayer'' ''WKBPolygon'' h filename flds crs encoding w"

section \<open>Loading: \<^verbatim>\<open>load_layer\<close> and \<^verbatim>\<open>load_layer_no_crs_dialog\<close>\<close>

text \<open>\<^verbatim>\<open>name or os.path.splitext(os.path.basename(filename))[0]\<close>\<close>

fun name_or_basename :: "string option \<Rightarrow> string \<Rightarrow> string" where
  "name_or_basename None filename = fst (splitext (basename filename))"
| "name_or_basename (Some n) filename =
     (if n \<noteq> [] then n else fst (splitext (basename filename)))"

definition load_layer ::
  "host \<Rightarrow> string \<Rightarrow> string option \<Rightarrow> world \<Rightarrow> (error + layer) \<times> world" where
  "load_layer h filename name w =
     (let name = name_or_basename name filename;
          (qgslayer, w1) = QgsVectorLayer h filename name ''ogr'' w
      in if \<not> isValid qgslayer then
           (let (qgslayer, w2) = QgsRasterLayer h filename name w1
            in if \<not> isValid qgslayer
               then (Inl (RuntimeError (''Could not load layer: '' @ filename)), w2)
               else (Inr qgslayer, w2))
         else (Inr qgslayer, w1))"

text \<open>
  \<^verbatim>\<open>load_layer_no_crs_dialog\<close> starts with \<^verbatim>\<open>QTCore.QSettings()\<close>; the module imports
  \<^verbatim>\<open>QtCore\<close>. \<^verbatim>\<open>settings.value(k)\<close> reads the stored value (\<^verbatim>\<open>None\<close> when there is none),
  \<^verbatim>\<open>settings.setValue(k, v)\<close> stores one. An exception of \<^verbatim>\<open>load_layer\<close> propagates past
  the second \<^verbatim>\<open>setValue\<close>.
\<close>

definition load_layer_no_crs_dialog ::
  "host \<Rightarrow> string \<Rightarrow> string option \<Rightarrow> world \<Rightarrow> (error + layer) \<times> world" where
  "load_layer_no_crs_dialog h filename name w =
     (case lookup_global ''QTCore'' of
        Inl e \<Rightarrow> (Inl e, w)
      | Inr _ \<Rightarrow>
          (let prjSetting = settings w ''/Projections/defaultBehaviour'';
               w1 = w\<lparr>settings := (settings w)(''/Projections/defaultBehaviour'' := Some [])\<rparr>;
               (r, w2) = load_layer h filename name w1
           in case r of
                Inl e \<Rightarrow> (Inl e, w2)
              | Inr layer \<Rightarrow>
                  (Inr layer,
                   w2\<lparr>settings := (settings w2)(''/Projections/defaultBehaviour'' := prjSetting)\<rparr>)))"

section \<open>A sample host and session\<close>

text \<open>
  A small session on which the functions are evaluated: a raster layer and two vector
  layers that share a name, a host that writes shapefiles and GeoJSON, opens one raster
  file and, as vector sources, one file and whatever the file writer has written, and
  matches literal patterns.
\<close>

definition relief :: layer where
  "relief = \<lparr>lname = ''relief'', ltype = RasterLayer, source = ''/data/relief.tif'',
              provider = ''gdal'', isValid = True\<rparr>"

definition roads :: layer where
  "roads = \<lparr>lname = ''roads'', ltype = VectorLayer, source = ''/data/roads.shp'',
             provider = ''ogr'', isValid = True\<rparr>"

definition roads_old :: layer where
  "roads_old = \<lparr>lname = ''roads'', ltype = VectorLayer, source = ''/data/old/roads.shp'',
                 provider = ''ogr'', isValid = True\<rparr>"

definition sample_world :: world where
  "sample_world =
     \<lparr>registry = [relief, roads, roads_old],
      settings = (\<lambda>k. None)(''/Projections/defaultBehaviour'' := Some ''prompt''),
      calls = []\<rparr>"

fun written_paths :: "host_call list \<Rightarrow> string list" where
  "written_paths [] = []"
| "written_paths (WriteVector path encoding qgsfields geometryType c driverName # cs) =
     path # written_paths cs"
| "written_paths (c # cs) = written_paths cs"

definition sample_host :: host where
  "sample_host =
     \<lparr>re_engine = literal_engine,
      supportedFiltersAndFormats =
        [(''ESRI Shapefile [OGR] (*.shp *.SHP)'', ''ESRI Shapefile''),
         (''GeoJSON [OGR] (*.geojson *.GEOJSON)'', ''GeoJSON'')],
      vector_opens = (\<lambda>w path providerLib.
                        path = ''/data/roads.shp'' \<or> path \<in> set (written_paths (calls w))),
      raster_opens = (\<lambda>w path. path = ''/data/relief.tif''),
      crs_from_authid = (\<lambda>s. \<lparr>authid = s, crs_isValid = (s = ''EPSG:4326'')\<rparr>),
      registry_after_add = (\<lambda>present added. present @ added)\<rparr>"

section \<open>Properties of the layer directory\<close>

lemma name_matches_eq:
  "name_matches re n ls =
     (case re n of
        Some m \<Rightarrow> Inr (filter (\<lambda>l. m (lname l)) ls)
      | None \<Rightarrow> if ls = [] then Inr [] else Inl ReError)"
  by (induction ls) (auto split: option.splits)

lemma count_list_filter:
  "count_list (filter P xs) x = (if P x then count_list xs x else 0)"
  by (induction xs) auto

lemma count_list_distinct: "distinct xs \<Longrightarrow> count_list xs x \<le> 1"
  by (induction xs) auto

lemma count_list_member: "x \<in> set xs \<Longrightarrow> 1 \<le> count_list xs x"
  by (induction xs) auto

text \<open>
  Claim C1. When \<^verbatim>\<open>map_layers\<close> is given both a name pattern and a type set, it returns
  the layers whose name matches the pattern at its start, followed by the layers whose
  type is in the set: the two filter passes over the registry, concatenated. Given is
  what the source tests with \<^verbatim>\<open>if name\<close> and \<^verbatim>\<open>if types\<close>: a non-empty pattern, and a single
  type or a non-empty list of types. The list is returned when the pattern compiles.
\<close>

theorem map_layers_both_concat:
  assumes "n \<noteq> []" and "as_list t \<noteq> []" and "re_engine h n = Some m"
  shows "map_layers h (Some n) (Some t) w =
           Inr (filter (\<lambda>l. m (lname l)) (registry w) @
                filter (\<lambda>l. ltype l \<in> set (as_list t)) (registry w))"
  using assms by (simp add: map_layers_def name_matches_eq type_matches_def Let_def)

theorem map_layers_both_concat_witness:
  "''ro'' \<noteq> [] \<and> as_list (TypeList [RasterLayer]) \<noteq> []
   \<and> re_engine sample_host ''ro'' = Some (prefix ''ro'')
   \<and> map_layers sample_host (Some ''ro'') (Some (TypeList [RasterLayer])) sample_world
       = Inr [roads, roads_old, relief]"
proof -
  have e: "re_engine sample_host ''ro'' = Some (prefix ''ro'')"
    by (simp add: sample_host_def literal_engine_def metacharacters_def)
  have "map_layers sample_host (Some ''ro'') (Some (TypeList [RasterLayer])) sample_world
          = Inr [roads, roads_old, relief]"
    using map_layers_both_concat [of "''ro''" "TypeList [RasterLayer]" sample_host
        "prefix ''ro''" sample_world] e
    by (simp add: sample_world_def roads_def roads_old_def relief_def)
  with e show ?thesis by simp
qed

text \<open>
  The empty pattern is not given: only the type filter runs. A pattern that does not
  compile raises as soon as there is a layer to match.
\<close>

lemma map_layers_empty_pattern:
  "as_list t \<noteq> [] \<Longrightarrow>
     map_layers h (Some []) (Some t) w
       = Inr (filter (\<lambda>l. ltype l \<in> set (as_list t)) (registry w))"
  by (simp add: map_layers_def type_matches_def Let_def)

lemma map_layers_malformed_pattern:
  "n \<noteq> [] \<Longrightarrow> re_engine h n = None \<Longrightarrow> registry w \<noteq> [] \<Longrightarrow>
     map_layers h (Some n) t w = Inl ReError"
  by (simp add: map_layers_def name_matches_eq Let_def)

text \<open>
  Claim C10. When both a name pattern and a type set are given, every registered layer
  that passes both filters occurs in the result once for each pass: twice as often as in
  the registry, which is twice for a registry without repetitions. The result is
  therefore not duplicate-free.
\<close>

theorem map_layers_both_duplicates:
  assumes "n \<noteq> []" and "as_list t \<noteq> []" and "re_engine h n = Some m"
    and "l \<in> set (registry w)" and "m (lname l)" and "ltype l \<in> set (as_list t)"
  shows "\<exists>r. map_layers h (Some n) (Some t) w = Inr r
             \<and> count_list r l = 2 * count_list (registry w) l
             \<and> (distinct (registry w) \<longrightarrow> count_list r l = 2)
             \<and> \<not> distinct r"
proof -
  let ?r = "filter (\<lambda>l. m (lname l)) (registry w) @
            filter (\<lambda>l. ltype l \<in> set (as_list t)) (registry w)"
  have r: "map_layers h (Some n) (Some t) w = Inr ?r"
    using assms(1-3) by (simp add: map_layers_def name_matches_eq type_matches_def Let_def)
  have c: "count_list ?r l = 2 * count_list (registry w) l"
    using assms(5,6) by (simp add: count_list_filter)
  have one: "1 \<le> count_list (registry w) l"
    using assms(4) by (rule count_list_member)
  have d: "distinct (registry w) \<longrightarrow> count_list ?r l = 2"
  proof
    assume "distinct (registry w)"
    then have "count_list (registry w) l \<le> 1" by (rule count_list_distinct)
    with one c show "count_list ?r l = 2" by simp
  qed
  have nd: "\<not> distinct ?r"
  proof
    assume "distinct ?r"
    then have "count_list ?r l \<le> 1" by (rule count_list_distinct)
    with one c show False by simp
  qed
  from r c d nd show ?thesis by blast
qed

theorem map_layers_both_duplicates_witness:
  "roads \<in> set (registry sample_world) \<and> prefix ''ro'' (lname roads)
   \<and> ltype roads \<in> set (as_list (OneType VectorLayer))
   \<and> map_layers sample_host (Some ''ro'') (Some (OneType VectorLayer)) sample_world
       = Inr [roads, roads_old, roads, roads_old]
   \<and> count_list [roads, roads_old, roads, roads_old] roads = 2"
proof -
  have e: "re_engine sample_host ''ro'' = Some (prefix ''ro'')"
    by (simp add: sample_host_def literal_engine_def metacharacters_def)
  have m: "roads \<in> set (registry sample_world)" "prefix ''ro'' (lname roads)"
    "ltype roads \<in> set (as_list (OneType VectorLayer))"
    by (simp_all add: sample_world_def roads_def)
  have v: "map_layers sample_host (Some ''ro'') (Some (OneType VectorLayer)) sample_world
             = Inr [roads, roads_old, roads, roads_old]"
    by (simp add: map_layers_def sample_world_def sample_host_def literal_engine_def
        metacharacters_def type_matches_def roads_def roads_old_def relief_def)
  have d: "distinct (registry sample_world)"
    by (simp add: sample_world_def roads_def roads_old_def relief_def)
  from map_layers_both_duplicates [of "''ro''" "OneType VectorLayer" sample_host
      "prefix ''ro''" roads sample_world] e m d v
  have "count_list [roads, roads_old, roads, roads_old] roads = 2" by simp
  with m v show ?thesis by simp
qed

lemma first_named_None: "first_named n ls = None \<longleftrightarrow> (\<forall>l\<in>set ls. lname l \<noteq> n)"
  by (induction ls) auto

lemma first_named_Some:
  "first_named n ls = Some l \<longleftrightarrow>
     (\<exists>pre post. ls = pre @ l # post \<and> lname l = n \<and> (\<forall>p\<in>set pre. lname p \<noteq> n))"
proof (induction ls)
  case Nil
  then show ?case by simp
next
  case (Cons a ls)
  show ?case
  proof (cases "lname a = n")
    case True
    have "(\<exists>pre post. a # ls = pre @ l # post \<and> lname l = n \<and> (\<forall>p\<in>set pre. lname p \<noteq> n))
            \<longleftrightarrow> a = l"
    proof
      assume "\<exists>pre post. a # ls = pre @ l # post \<and> lname l = n \<and> (\<forall>p\<in>set pre. lname p \<noteq> n)"
      then obtain pre post where e: "a # ls = pre @ l # post" and p: "\<forall>p\<in>set pre. lname p \<noteq> n"
        by blast
      show "a = l"
      proof (cases pre)
        case Nil
        with e show ?thesis by simp
      next
        case (Cons b pre')
        with e have "b = a" by simp
        with Cons p True show ?thesis by simp
      qed
    next
      assume "a = l"
      with True have "a # ls = [] @ l # ls \<and> lname l = n \<and> (\<forall>p\<in>set []. lname p \<noteq> n)" by simp
      then show "\<exists>pre post. a # ls = pre @ l # post \<and> lname l = n \<and> (\<forall>p\<in>set pre. lname p \<noteq> n)"
        by blast
    qed
    with True show ?thesis by simp
  next
    case False
    have "(\<exists>pre post. a # ls = pre @ l # post \<and> lname l = n \<and> (\<forall>p\<in>set pre. lname p \<noteq> n))
            \<longleftrightarrow> (\<exists>pre post. ls = pre @ l # post \<and> lname l = n \<and> (\<forall>p\<in>set pre. lname p \<noteq> n))"
    proof
      assume "\<exists>pre post. a # ls = pre @ l # post \<and> lname l = n \<and> (\<forall>p\<in>set pre. lname p \<noteq> n)"
      then obtain pre post where e: "a # ls = pre @ l # post" and ln: "lname l = n"
        and p: "\<forall>p\<in>set pre. lname p \<noteq> n"
        by blast
      show "\<exists>pre post. ls = pre @ l # post \<and> lname l = n \<and> (\<forall>p\<in>set pre. lname p \<noteq> n)"
      proof (cases pre)
        case Nil
        with e ln False show ?thesis by simp
      next
        case (Cons b pre')
        with e p ln have "ls = pre' @ l # post \<and> lname l = n \<and> (\<forall>p\<in>set pre'. lname p \<noteq> n)"
          by simp
        then show ?thesis by blast
      qed
    next
      assume "\<exists>pre post. ls = pre @ l # post \<and> lname l = n \<and> (\<forall>p\<in>set pre. lname p \<noteq> n)"
      then obtain pre post where "ls = pre @ l # post" and "lname l = n"
        and "\<forall>p\<in>set pre. lname p \<noteq> n"
        by blast
      with False have "a # ls = (a # pre) @ l # post \<and> lname l = n
                          \<and> (\<forall>p\<in>set (a # pre). lname p \<noteq> n)"
        by simp
      then show "\<exists>pre post. a # ls = pre @ l # post \<and> lname l = n \<and> (\<forall>p\<in>set pre. lname p \<noteq> n)"
        by blast
    qed
    with False Cons.IH show ?thesis by simp
  qed
qed

text \<open>
  Claim C8. \<^verbatim>\<open>layer_from_name\<close> returns the first layer of the registry, in iteration
  order, whose name equals the argument: every layer before it has another name. It
  returns \<^verbatim>\<open>None\<close>, and raises nothing, exactly when no registered layer has that name.
\<close>

theorem layer_from_name_first_or_None:
  "(layer_from_name X w = None \<longleftrightarrow> (\<forall>l\<in>set (registry w). lname l \<noteq> X))
   \<and> (layer_from_name X w = Some l \<longleftrightarrow>
        (\<exists>pre post. registry w = pre @ l # post \<and> lname l = X
                    \<and> (\<forall>p\<in>set pre. lname p \<noteq> X)))"
  unfolding layer_from_name_def using first_named_None first_named_Some by blast

theorem layer_from_name_first_or_None_witness:
  "layer_from_name ''roads'' sample_world = Some roads
   \<and> (\<exists>pre post. registry sample_world = pre @ roads # post \<and> lname roads = ''roads''
                  \<and> (\<forall>p\<in>set pre. lname p \<noteq> ''roads''))
   \<and> layer_from_name ''roads'' sample_world \<noteq> Some roads_old
   \<and> layer_from_name ''rivers'' sample_world = None
   \<and> ''rivers'' \<notin> set (map lname (registry sample_world))"
proof -
  have a: "layer_from_name ''roads'' sample_world = Some roads"
    by (simp add: layer_from_name_def sample_world_def roads_def relief_def)
  have b: "layer_from_name ''rivers'' sample_world = None"
    by (simp add: layer_from_name_def sample_world_def roads_def roads_old_def relief_def)
  have c: "roads \<noteq> roads_old" by (simp add: roads_def roads_old_def)
  from a b c layer_from_name_first_or_None [of "''roads''" sample_world roads]
    layer_from_name_first_or_None [of "''rivers''" sample_world roads]
  show ?thesis by auto
qed

section \<open>Properties of registration and loading\<close>

text \<open>
  Claim C7. \<^verbatim>\<open>add_layer\<close> on a single layer handle and on the one-element list of that
  handle are the same call: the same list is handed to the registry and returned, and
  the host is left in the same state.
\<close>

theorem add_layer_single_or_singleton:
  "add_layer h (Single L) load_in_legend w = add_layer h (Sequence [L]) load_in_legend w
   \<and> fst (add_layer h (Single L) load_in_legend w) = [L]
   \<and> calls (snd (add_layer h (Single L) load_in_legend w))
       = calls w @ [AddMapLayers [L] load_in_legend]"
  by (simp add: add_layer_def addMapLayers_def Let_def)

text \<open>
  Claim C5. \<^verbatim>\<open>load_layer\<close> opens the path as a vector layer first and returns that handle
  when it is valid, without opening a raster layer. Otherwise it opens the path as a
  raster layer and returns that handle when it is valid. It raises \<^verbatim>\<open>RuntimeError\<close>, with
  a message that ends with the path, exactly when neither handle is valid.
\<close>

theorem load_layer_vector_then_raster:
  assumes "nm = name_or_basename name filename"
    and "w1 = w\<lparr>calls := calls w @ [OpenVector filename nm ''ogr'']\<rparr>"
    and "w2 = w\<lparr>calls := calls w @ [OpenVector filename nm ''ogr'', OpenRaster filename nm]\<rparr>"
    and "r = load_layer h filename name w"
  shows "(vector_opens h w filename ''ogr'' \<longrightarrow>
            r = (Inr \<lparr>lname = nm, ltype = VectorLayer, source = filename, provider = ''ogr'',
                      isValid = True\<rparr>, w1))
       \<and> (\<not> vector_opens h w filename ''ogr'' \<and> raster_opens h w1 filename \<longrightarrow>
            r = (Inr \<lparr>lname = nm, ltype = RasterLayer, source = filename, provider = ''gdal'',
                      isValid = True\<rparr>, w2))
       \<and> (\<not> vector_opens h w filename ''ogr'' \<and> \<not> raster_opens h w1 filename \<longrightarrow>
            r = (Inl (RuntimeError (''Could not load layer: '' @ filename)), w2))
       \<and> ((\<exists>e. fst r = Inl e) \<longleftrightarrow>
            \<not> vector_opens h w filename ''ogr'' \<and> \<not> raster_opens h w1 filename)"
  using assms by (simp add: load_layer_def QgsVectorLayer_def QgsRasterLayer_def Let_def)

theorem load_layer_vector_then_raster_witness:
  "load_layer sample_host ''/data/relief.tif'' None sample_world
     = (Inr relief,
        sample_world\<lparr>calls := [OpenVector ''/data/relief.tif'' ''relief'' ''ogr'',
                                OpenRaster ''/data/relief.tif'' ''relief'']\<rparr>)
   \<and> load_layer sample_host ''/data/roads.shp'' (Some ''roads'') sample_world
     = (Inr roads, sample_world\<lparr>calls := [OpenVector ''/data/roads.shp'' ''roads'' ''ogr'']\<rparr>)
   \<and> load_layer sample_host ''missing.file'' None sample_world
     = (Inl (RuntimeError ''Could not load layer: missing.file''),
        sample_world\<lparr>calls := [OpenVector ''missing.file'' ''missing'' ''ogr'',
                                OpenRaster ''missing.file'' ''missing'']\<rparr>)"
proof -
  have n1: "name_or_basename None ''/data/relief.tif'' = ''relief''"
    by (simp add: basename_def splitext_def str_rfind_def slice_from_def slice_index_def
        skip_dots.simps)
  have n2: "name_or_basename None ''missing.file'' = ''missing''"
    by (simp add: basename_def splitext_def str_rfind_def slice_from_def slice_index_def
        skip_dots.simps)
  have n3: "name_or_basename (Some ''roads'') ''/data/roads.shp'' = ''roads''"
    by simp
  have c: "calls sample_world = []" by (simp add: sample_world_def)
  have a: "load_layer sample_host ''/data/relief.tif'' None sample_world
     = (Inr relief,
        sample_world\<lparr>calls := [OpenVector ''/data/relief.tif'' ''relief'' ''ogr'',
                                OpenRaster ''/data/relief.tif'' ''relief'']\<rparr>)"
    using load_layer_vector_then_raster [OF n1 [symmetric] refl refl refl,
        where w = sample_world and h = sample_host] c
    by (simp add: sample_host_def relief_def)
  have b: "load_layer sample_host ''/data/roads.shp'' (Some ''roads'') sample_world
     = (Inr roads, sample_world\<lparr>calls := [OpenVector ''/data/roads.shp'' ''roads'' ''ogr'']\<rparr>)"
    using load_layer_vector_then_raster [OF n3 [symmetric] refl refl refl,
        where w = sample_world and h = sample_host] c
    by (simp add: sample_host_def roads_def)
  have d: "load_layer sample_host ''missing.file'' None sample_world
     = (Inl (RuntimeError ''Could not load layer: missing.file''),
        sample_world\<lparr>calls := [OpenVector ''missing.file'' ''missing'' ''ogr'',
                                OpenRaster ''missing.file'' ''missing'']\<rparr>)"
    using load_layer_vector_then_raster [OF n2 [symmetric] refl refl refl,
        where w = sample_world and h = sample_host] c
    by (simp add: sample_host_def)
  from a b d show ?thesis by simp
qed

section \<open>Properties of layer creation\<close>

text \<open>
  The file branch, in one equation: the path and the dictionary key after the fallback,
  the call of the file writer and the layer opened on the written file.
\<close>

lemma new_vector_layer_file:
  assumes "OGRCodes = fill_OGRCodes (supportedFiltersAndFormats h) Map.empty"
    and "extension = slice_from (snd (splitext filename)) 1"
    and "path = (if OGRCodes extension = None then filename @ ''.shp'' else filename)"
    and "OGRCodes (if OGRCodes extension = None then ''shp'' else extension) = Some driverName"
  shows "new_vector_layer h (Some filename) flds geometryType c encoding w =
           (Inr \<lparr>lname = basename path, ltype = VectorLayer, source = path, provider = ''ogr'',
                  isValid = vector_opens h
                     (w\<lparr>calls := calls w @ [WriteVector path encoding (as_qgsfields flds)
                                                geometryType (as_crs h c) driverName]\<rparr>)
                     path ''ogr''\<rparr>,
            w\<lparr>calls := calls w @
                 [WriteVector path encoding (as_qgsfields flds) geometryType (as_crs h c) driverName,
                  OpenVector path (basename path) ''ogr'']\<rparr>)"
  using assms
  by (auto simp add: new_vector_layer_def QgsVectorLayer_def QgsVectorFileWriter_def Let_def)

text \<open>A host whose table has no entry for \<^verbatim>\<open>shp\<close> makes the fallback raise \<^verbatim>\<open>KeyError\<close>.\<close>

lemma new_vector_layer_no_shapefile_driver:
  assumes "OGRCodes = fill_OGRCodes (supportedFiltersAndFormats h) Map.empty"
    and "OGRCodes (slice_from (snd (splitext filename)) 1) = None"
    and "OGRCodes ''shp'' = None"
  shows "new_vector_layer h (Some filename) flds geometryType c encoding w = (Inl KeyError, w)"
  using assms by (simp add: new_vector_layer_def Let_def)

lemma sample_extensions:
  "format_extension ''ESRI Shapefile [OGR] (*.shp *.SHP)'' = ''shp''"
  "format_extension ''GeoJSON [OGR] (*.geojson *.GEOJSON)'' = ''geojson''"
  by (simp_all add: format_extension_def str_find_def slice_from_def slice_to_def
      slice_index_def Let_def)

lemma sample_OGRCodes:
  "fill_OGRCodes (supportedFiltersAndFormats sample_host) Map.empty =
     [''shp'' \<mapsto> ''ESRI Shapefile'', ''geojson'' \<mapsto> ''GeoJSON'']"
  by (simp add: sample_host_def sample_extensions)

lemma sample_paths:
  "slice_from (snd (splitext ''out.xyz'')) 1 = ''xyz''"
  "slice_from (snd (splitext ''out.geojson'')) 1 = ''geojson''"
  "basename ''out.xyz.shp'' = ''out.xyz.shp''"
  "basename ''out.geojson'' = ''out.geojson''"
  by (simp_all add: basename_def splitext_def str_rfind_def slice_from_def slice_index_def
      skip_dots.simps)

text \<open>
  Claim C2. With a destination whose extension is not a key of \<^verbatim>\<open>OGRCodes\<close>,
  \<^verbatim>\<open>new_vector_layer\<close> writes with the driver registered for \<^verbatim>\<open>shp\<close> to the path with
  \<^verbatim>\<open>.shp\<close> appended, and opens that file; the host's table is assumed to offer the
  shapefile driver. With an extension that is a key, it writes with the driver of that
  extension to the path as given.
\<close>

theorem new_vector_layer_extension_fallback:
  assumes "OGRCodes = fill_OGRCodes (supportedFiltersAndFormats h) Map.empty"
    and "extension = slice_from (snd (splitext filename)) 1"
    and "r = new_vector_layer h (Some filename) flds geometryType c encoding w"
  shows "(OGRCodes extension = None \<and> OGRCodes ''shp'' = Some shp \<longrightarrow>
            (\<exists>l. fst r = Inr l \<and> source l = filename @ ''.shp''
               \<and> lname l = basename (filename @ ''.shp''))
            \<and> calls (snd r) = calls w @
                 [WriteVector (filename @ ''.shp'') encoding (as_qgsfields flds) geometryType
                    (as_crs h c) shp,
                  OpenVector (filename @ ''.shp'') (basename (filename @ ''.shp'')) ''ogr''])
       \<and> (OGRCodes extension = Some driverName \<longrightarrow>
            (\<exists>l. fst r = Inr l \<and> source l = filename \<and> lname l = basename filename)
            \<and> calls (snd r) = calls w @
                 [WriteVector filename encoding (as_qgsfields flds) geometryType
                    (as_crs h c) driverName,
                  OpenVector filename (basename filename) ''ogr''])"
proof (intro conjI impI)
  assume a: "OGRCodes extension = None \<and> OGRCodes ''shp'' = Some shp"
  have "OGRCodes (if OGRCodes extension = None then ''shp'' else extension) = Some shp"
    using a by simp
  from new_vector_layer_file [OF assms(1,2) refl this, of flds geometryType c encoding w] a assms(3)
  show "\<exists>l. fst r = Inr l \<and> source l = filename @ ''.shp''
               \<and> lname l = basename (filename @ ''.shp'')"
    and "calls (snd r) = calls w @
                 [WriteVector (filename @ ''.shp'') encoding (as_qgsfields flds) geometryType
                    (as_crs h c) shp,
                  OpenVector (filename @ ''.shp'') (basename (filename @ ''.shp'')) ''ogr'']"
    by simp_all
next
  assume a: "OGRCodes extension = Some driverName"
  have "OGRCodes (if OGRCodes extension = None then ''shp'' else extension) = Some driverName"
    using a by simp
  from new_vector_layer_file [OF assms(1,2) refl this, of flds geometryType c encoding w] a assms(3)
  show "\<exists>l. fst r = Inr l \<and> source l = filename \<and> lname l = basename filename"
    and "calls (snd r) = calls w @
                 [WriteVector filename encoding (as_qgsfields flds) geometryType
                    (as_crs h c) driverName,
                  OpenVector filename (basename filename) ''ogr'']"
    by simp_all
qed

theorem new_vector_layer_extension_fallback_witness:
  "fill_OGRCodes (supportedFiltersAndFormats sample_host) Map.empty ''xyz'' = None
   \<and> fill_OGRCodes (supportedFiltersAndFormats sample_host) Map.empty ''shp''
       = Some ''ESRI Shapefile''
   \<and> (\<exists>l. fst (new_vector_layer sample_host (Some ''out.xyz'') (FieldList []) WKBPoint
                 (AuthId ''EPSG:4326'') ''utf-8'' sample_world) = Inr l
          \<and> source l = ''out.xyz.shp'' \<and> lname l = ''out.xyz.shp'')
   \<and> calls (snd (new_vector_layer sample_host (Some ''out.xyz'') (FieldList []) WKBPoint
                 (AuthId ''EPSG:4326'') ''utf-8'' sample_world))
       = [WriteVector ''out.xyz.shp'' ''utf-8'' [] WKBPoint
            \<lparr>authid = ''EPSG:4326'', crs_isValid = True\<rparr> ''ESRI Shapefile'',
          OpenVector ''out.xyz.shp'' ''out.xyz.shp'' ''ogr'']
   \<and> fill_OGRCodes (supportedFiltersAndFormats sample_host) Map.empty ''geojson''
       = Some ''GeoJSON''
   \<and> (\<exists>l. fst (new_vector_layer sample_host (Some ''out.geojson'') (FieldList []) WKBPoint
                 (AuthId ''EPSG:4326'') ''utf-8'' sample_world) = Inr l
          \<and> source l = ''out.geojson'' \<and> lname l = ''out.geojson'')
   \<and> calls (snd (new_vector_layer sample_host (Some ''out.geojson'') (FieldList []) WKBPoint
                 (AuthId ''EPSG:4326'') ''utf-8'' sample_world))
       = [WriteVector ''out.geojson'' ''utf-8'' [] WKBPoint
            \<lparr>authid = ''EPSG:4326'', crs_isValid = True\<rparr> ''GeoJSON'',
          OpenVector ''out.geojson'' ''out.geojson'' ''ogr'']"
proof -
  let ?codes = "fill_OGRCodes (supportedFiltersAndFormats sample_host) Map.empty"
  have k: "?codes ''xyz'' = None" "?codes ''shp'' = Some ''ESRI Shapefile''"
    "?codes ''geojson'' = Some ''GeoJSON''"
    by (simp_all add: sample_OGRCodes)
  have c: "calls sample_world = []" by (simp add: sample_world_def)
  have s: "as_crs sample_host (AuthId ''EPSG:4326'')
             = \<lparr>authid = ''EPSG:4326'', crs_isValid = True\<rparr>"
    by (simp add: sample_host_def)
  from new_vector_layer_extension_fallback [OF refl sample_paths(1) [symmetric] refl,
      where h = sample_host and shp = "''ESRI Shapefile''" and flds = "FieldList []"
        and geometryType = WKBPoint and c = "AuthId ''EPSG:4326''" and encoding = "''utf-8''"
        and w = sample_world and driverName = "''GeoJSON''"]
    new_vector_layer_extension_fallback [OF refl sample_paths(2) [symmetric] refl,
      where h = sample_host and shp = "''ESRI Shapefile''" and flds = "FieldList []"
        and geometryType = WKBPoint and c = "AuthId ''EPSG:4326''" and encoding = "''utf-8''"
        and w = sample_world and driverName = "''GeoJSON''"]
    k c s
  show ?thesis by (simp add: sample_paths)
qed

text \<open>
  Claim C6. \<^verbatim>\<open>_toQgsField\<close> gives a \<^verbatim>\<open>(name, type)\<close> tuple the text type code when the type
  is none of \<^verbatim>\<open>str\<close>, \<^verbatim>\<open>float\<close>, \<^verbatim>\<open>int\<close>, \<^verbatim>\<open>bool\<close>, the code of \<^verbatim>\<open>TYPE_MAP\<close> when it is one
  of them, and returns a \<^verbatim>\<open>QgsField\<close> object unchanged. Whenever \<^verbatim>\<open>new_vector_layer\<close>
  creates a file from a list of fields, the schema it hands to the file writer is that
  list with every entry normalised this way.
\<close>

theorem toQgsField_unmapped_is_text:
  "(t \<notin> {Py_str, Py_float, Py_int, Py_bool} \<longrightarrow>
      toQgsField (NameType n t) = QgsField n QVariant_String)
   \<and> toQgsField (NameType n Py_str) = QgsField n QVariant_String
   \<and> toQgsField (NameType n Py_float) = QgsField n QVariant_Double
   \<and> toQgsField (NameType n Py_int) = QgsField n QVariant_Int
   \<and> toQgsField (NameType n Py_bool) = QgsField n QVariant_Bool
   \<and> toQgsField (Typed f) = f
   \<and> (\<forall>l w'. new_vector_layer h (Some filename) (FieldList fs) geometryType c encoding w
                 = (Inr l, w') \<longrightarrow>
        (\<exists>path c' driverName.
            WriteVector path encoding (map toQgsField fs) geometryType c' driverName
              \<in> set (calls w')))"
proof -
  have a: "t \<notin> {Py_str, Py_float, Py_int, Py_bool} \<longrightarrow>
      toQgsField (NameType n t) = QgsField n QVariant_String"
    by (cases t) (simp_all add: dict_get_def TYPE_MAP_def)
  have b: "toQgsField (NameType n Py_str) = QgsField n QVariant_String"
    "toQgsField (NameType n Py_float) = QgsField n QVariant_Double"
    "toQgsField (NameType n Py_int) = QgsField n QVariant_Int"
    "toQgsField (NameType n Py_bool) = QgsField n QVariant_Bool"
    "toQgsField (Typed f) = f"
    by (simp_all add: dict_get_def TYPE_MAP_def)
  have d: "\<forall>l w'. new_vector_layer h (Some filename) (FieldList fs) geometryType c encoding w
                 = (Inr l, w') \<longrightarrow>
        (\<exists>path c' driverName.
            WriteVector path encoding (map toQgsField fs) geometryType c' driverName
              \<in> set (calls w'))"
  proof (intro allI impI)
    fix l w'
    assume r: "new_vector_layer h (Some filename) (FieldList fs) geometryType c encoding w
                 = (Inr l, w')"
    let ?codes = "fill_OGRCodes (supportedFiltersAndFormats h) Map.empty"
    let ?ext = "slice_from (snd (splitext filename)) 1"
    let ?key = "if ?codes ?ext = None then ''shp'' else ?ext"
    have "?codes ?key \<noteq> None"
    proof
      assume "?codes ?key = None"
      then have "new_vector_layer h (Some filename) (FieldList fs) geometryType c encoding w
                   = (Inl KeyError, w)"
        by (simp add: new_vector_layer_def Let_def split: if_splits)
      with r show False by simp
    qed
    then obtain dn where "?codes ?key = Some dn" by blast
    from new_vector_layer_file [OF refl refl refl this, of "FieldList fs" geometryType c encoding w] r
    have "WriteVector (if ?codes ?ext = None then filename @ ''.shp'' else filename) encoding
            (map toQgsField fs) geometryType (as_crs h c) dn \<in> set (calls w')"
      by auto
    then show "\<exists>path c' driverName.
            WriteVector path encoding (map toQgsField fs) geometryType c' driverName
              \<in> set (calls w')"
      by blast
  qed
  from a b d show ?thesis by blast
qed

theorem toQgsField_unmapped_is_text_witness:
  "Py_other ''unicode'' \<notin> {Py_str, Py_float, Py_int, Py_bool}
   \<and> toQgsField (NameType ''label'' (Py_other ''unicode'')) = QgsField ''label'' QVariant_String
   \<and> new_vector_layer sample_host (Some ''out.xyz'')
        (FieldList [NameType ''label'' (Py_other ''unicode''), NameType ''n'' Py_int,
                    Typed (QgsField ''d'' QVariant_Date)])
        WKBPoint (AuthId ''EPSG:4326'') ''utf-8'' sample_world
      = (Inr \<lparr>lname = ''out.xyz.shp'', ltype = VectorLayer, source = ''out.xyz.shp'',
               provider = ''ogr'', isValid = True\<rparr>,
         sample_world\<lparr>calls :=
           [WriteVector ''out.xyz.shp'' ''utf-8''
              [QgsField ''label'' QVariant_String, QgsField ''n'' QVariant_Int,
               QgsField ''d'' QVariant_Date]
              WKBPoint \<lparr>authid = ''EPSG:4326'', crs_isValid = True\<rparr> ''ESRI Shapefile'',
            OpenVector ''out.xyz.shp'' ''out.xyz.shp'' ''ogr'']\<rparr>)"
proof -
  have a: "Py_other ''unicode'' \<notin> {Py_str, Py_float, Py_int, Py_bool}" by simp
  have b: "toQgsField (NameType ''label'' (Py_other ''unicode'')) = QgsField ''label'' QVariant_String"
    using toQgsField_unmapped_is_text [of "Py_other ''unicode''" "''label''"] a by blast
  have k: "(if fill_OGRCodes (supportedFiltersAndFormats sample_host) Map.empty ''xyz'' = None
            then ''out.xyz'' @ ''.shp'' else ''out.xyz'') = ''out.xyz.shp''"
    "fill_OGRCodes (supportedFiltersAndFormats sample_host) Map.empty
       (if fill_OGRCodes (supportedFiltersAndFormats sample_host) Map.empty ''xyz'' = None
        then ''shp'' else ''xyz'') = Some ''ESRI Shapefile''"
    by (simp_all add: sample_OGRCodes)
  have c: "calls sample_world = []" by (simp add: sample_world_def)
  have "new_vector_layer sample_host (Some ''out.xyz'')
        (FieldList [NameType ''label'' (Py_other ''unicode''), NameType ''n'' Py_int,
                    Typed (QgsField ''d'' QVariant_Date)])
        WKBPoint (AuthId ''EPSG:4326'') ''utf-8'' sample_world
      = (Inr \<lparr>lname = ''out.xyz.shp'', ltype = VectorLayer, source = ''out.xyz.shp'',
               provider = ''ogr'', isValid = True\<rparr>,
         sample_world\<lparr>calls :=
           [WriteVector ''out.xyz.shp'' ''utf-8''
              [QgsField ''label'' QVariant_String, QgsField ''n'' QVariant_Int,
               QgsField ''d'' QVariant_Date]
              WKBPoint \<lparr>authid = ''EPSG:4326'', crs_isValid = True\<rparr> ''ESRI Shapefile'',
            OpenVector ''out.xyz.shp'' ''out.xyz.shp'' ''ogr'']\<rparr>)"
    using new_vector_layer_file [OF refl sample_paths(1) [symmetric] k(1) [symmetric] k(2),
        where geometryType = WKBPoint and c = "AuthId ''EPSG:4326''" and encoding = "''utf-8''"
          and w = sample_world
          and flds = "FieldList [NameType ''label'' (Py_other ''unicode''), NameType ''n'' Py_int,
                    Typed (QgsField ''d'' QVariant_Date)]"] c b
    by (simp add: sample_paths sample_host_def dict_get_def TYPE_MAP_def)
  with a b show ?thesis by simp
qed

section \<open>Unbound names\<close>

text \<open>
  Three functions refer to a global that nothing binds: \<^verbatim>\<open>QTCore\<close> (the module imports
  \<^verbatim>\<open>QtCore\<close>), \<^verbatim>\<open>self\<close> (inside a module-level function) and \<^verbatim>\<open>newVectorLayer\<close> (the
  function is \<^verbatim>\<open>new_vector_layer\<close>).
\<close>

lemma unbound_names:
  "lookup_global ''QTCore'' = Inl (NameError ''QTCore'')"
  "lookup_global ''self'' = Inl (NameError ''self'')"
  "lookup_global ''newVectorLayer'' = Inl (NameError ''newVectorLayer'')"
  by (simp_all add: lookup_global_def module_names_def qgis_core_names_def builtin_names_def)

lemma bound_names:
  "lookup_global ''QtCore'' = Inr ()"
  "lookup_global ''GEOM_TYPE_MAP'' = Inr ()"
  "lookup_global ''new_vector_layer'' = Inr ()"
  by (simp_all add: lookup_global_def module_names_def qgis_core_names_def builtin_names_def)

text \<open>
  Claim C3, evaluated on the code. \<^verbatim>\<open>load_layer_no_crs_dialog\<close> raises \<^verbatim>\<open>NameError\<close> at its
  first statement, for every argument and in every state: it reads no setting, clears
  none and loads nothing.
\<close>

theorem load_layer_no_crs_dialog_raises_NameError:
  "load_layer_no_crs_dialog h filename name w = (Inl (NameError ''QTCore''), w)"
  by (simp add: load_layer_no_crs_dialog_def unbound_names)

text \<open>
  Claim C4, evaluated on the code. With \<^verbatim>\<open>filename = None\<close>, \<^verbatim>\<open>new_vector_layer\<close> raises
  \<^verbatim>\<open>NameError\<close> at \<^verbatim>\<open>self.GEOM_TYPE_MAP\<close>, for every other argument: no descriptor is
  built and no memory layer is constructed.
\<close>

theorem new_vector_layer_memory_raises_NameError:
  "new_vector_layer h None flds geometryType c encoding w = (Inl (NameError ''self''), w)"
  by (simp add: new_vector_layer_def unbound_names)

text \<open>
  Claim C9, evaluated on the code. Each of the three wrappers raises \<^verbatim>\<open>NameError\<close> for
  every argument, since the global \<^verbatim>\<open>newVectorLayer\<close> is unbound; on a destination for
  which \<^verbatim>\<open>new_vector_layer\<close> returns a layer, the wrapper's result differs from it.
\<close>

theorem wrappers_raise_NameError:
  "new_points_layer h filename flds c encoding w = (Inl (NameError ''newVectorLayer''), w)
   \<and> new_lines_layer h filename flds c encoding w = (Inl (NameError ''newVectorLayer''), w)
   \<and> new_polygons_layer h filename flds c encoding w = (Inl (NameError ''newVectorLayer''), w)
   \<and> new_points_layer sample_host (Some ''out.geojson'') (FieldList []) (AuthId ''EPSG:4326'')
        ''utf-8'' sample_world
      \<noteq> new_vector_layer sample_host (Some ''out.geojson'') (FieldList []) WKBPoint
          (AuthId ''EPSG:4326'') ''utf-8'' sample_world"
proof -
  have k: "(if fill_OGRCodes (supportedFiltersAndFormats sample_host) Map.empty ''geojson'' = None
            then ''out.geojson'' @ ''.shp'' else ''out.geojson'') = ''out.geojson''"
    "fill_OGRCodes (supportedFiltersAndFormats sample_host) Map.empty
       (if fill_OGRCodes (supportedFiltersAndFormats sample_host) Map.empty ''geojson'' = None
        then ''shp'' else ''geojson'') = Some ''GeoJSON''"
    by (simp_all add: sample_OGRCodes)
  have a: "new_points_layer h filename flds c encoding w = (Inl (NameError ''newVectorLayer''), w)"
    "new_lines_layer h filename flds c encoding w = (Inl (NameError ''newVectorLayer''), w)"
    "new_polygons_layer h filename flds c encoding w = (Inl (NameError ''newVectorLayer''), w)"
    for h filename flds c encoding w
    by (simp_all add: new_points_layer_def new_lines_layer_def new_polygons_layer_def
        call_wrapped_def unbound_names)
  have "\<exists>l w'. new_vector_layer sample_host (Some ''out.geojson'') (FieldList []) WKBPoint
          (AuthId ''EPSG:4326'') ''utf-8'' sample_world = (Inr l, w')"
    using new_vector_layer_file [OF refl sample_paths(2) [symmetric] k(1) [symmetric] k(2),
        where geometryType = WKBPoint and c = "AuthId ''EPSG:4326''" and encoding = "''utf-8''"
          and w = sample_world and flds = "FieldList []"]
    by blast
  with a show ?thesis by auto
qed

end
